theory Spec2Isabelle
  imports Main "HOL-Library.Sublist"
begin

section \<open>Data model\<close>

text \<open>
  The procurement core of the repository: \<^verbatim>\<open>agent/memory.py\<close> (rule storage),
  \<^verbatim>\<open>agent/tools.py\<close> (vendor filtering and selection), \<^verbatim>\<open>agent/state.py\<close> (pause,
  approve, reject) and the two tool functions of \<^verbatim>\<open>agent/agent.py\<close>.

  Python strings are modelled as \<open>string\<close>; a character outside ASCII stands as its
  UTF-8 bytes. Python integers are unbounded and are modelled as \<open>int\<close>.
\<close>

subsection \<open>Exceptions\<close>

text \<open>
  The exceptions the modelled code can raise: \<^verbatim>\<open>open\<close> on a file that does not exist,
  \<^verbatim>\<open>json.load\<close> on a file that does not hold a document of the expected shape, and
  subscripting a dict with a key it does not have.
\<close>

datatype error = FileNotFoundError | JSONDecodeError | KeyError string

subsection \<open>Files\<close>

text \<open>
  A data file is absent, unreadable as JSON, or holds a document. \<^verbatim>\<open>json.dump\<close>
  followed by \<^verbatim>\<open>json.load\<close> is the identity on the documents handled here (string keys,
  integers, lists of strings), so a file is modelled by the document it holds.
\<close>

datatype 'a data_file = Absent | Garbled | Json 'a

definition json_load :: "'a data_file \<Rightarrow> error + 'a" where
  "json_load f = (case f of Absent \<Rightarrow> Inl FileNotFoundError
                          | Garbled \<Rightarrow> Inl JSONDecodeError
                          | Json d \<Rightarrow> Inr d)"

subsection \<open>Vendors and rules\<close>

text \<open>A catalog entry \<^verbatim>\<open>{"name": ..., "price": ...}\<close>.\<close>

record vendor =
  name :: string
  price :: int

text \<open>
  The rules dict of a site. \<^verbatim>\<open>process_procurement\<close> subscripts it with
  \<^verbatim>\<open>"approval_limit"\<close> and reads \<^verbatim>\<open>"banned_vendors"\<close> with a default, so either key
  may be missing: a field is \<open>None\<close> when the dict has no such key.
\<close>

record rules =
  approval_limit :: "int option"
  banned_vendors :: "string list option"

type_synonym memory = "string \<rightharpoonup> rules"

text \<open>The two data files: \<^verbatim>\<open>data/memory.json\<close> and \<^verbatim>\<open>data/mock_vendors.json\<close>.\<close>

record world =
  MEMORY_FILE :: "memory data_file"
  VENDORS_FILE :: "vendor list data_file"

subsection \<open>Result dicts\<close>

text \<open>
  The dicts returned by the tool functions have string keys and hold strings, integers
  and lists of strings. A dict is a map from keys to values; equality of Python dicts
  does not depend on the order of the keys, as equality of maps does not.
\<close>

datatype pyval = VStr string | VInt int | VList "string list"

type_synonym pydict = "string \<rightharpoonup> pyval"

section \<open>Built-ins of Python used by the code\<close>

subsection \<open>\<^verbatim>\<open>str.lower\<close>\<close>

text \<open>
  On a string of ASCII characters \<^verbatim>\<open>str.lower\<close> maps the letters A to Z to a to z and
  leaves every other character as it is: that part is \<open>lower_char\<close>. On a string
  with a character outside ASCII it follows the case mappings of Unicode, a table of
  the interpreter and not of this repository. That part is the parameter
  \<open>unicode_lower\<close> of \<open>lower\<close>, and of every function below that calls
  \<^verbatim>\<open>str.lower\<close>: what is proved holds for every value of it, the mapping of the
  interpreter among them.
\<close>

definition is_ascii :: "string \<Rightarrow> bool" where
  "is_ascii s = list_all (\<lambda>c. \<not> digit7 c) s"

definition lower_char :: "char \<Rightarrow> char" where
  "lower_char c =
     (case map_of (zip ''ABCDEFGHIJKLMNOPQRSTUVWXYZ'' ''abcdefghijklmnopqrstuvwxyz'') c of
        None \<Rightarrow> c
      | Some l \<Rightarrow> l)"

definition lower :: "(string \<Rightarrow> string) \<Rightarrow> string \<Rightarrow> string" where
  "lower unicode_lower s = (if is_ascii s then map lower_char s else unicode_lower s)"

subsection \<open>\<^verbatim>\<open>min\<close> with a key\<close>

text \<open>
  \<^verbatim>\<open>min(iterable, key=f)\<close> walks the iterable once and replaces the item it holds only
  when the key of the next item is strictly smaller: \<open>min_key f best xs\<close> is that loop,
  started with the first item as \<open>best\<close>.
\<close>

fun min_key :: "('a \<Rightarrow> int) \<Rightarrow> 'a \<Rightarrow> 'a list \<Rightarrow> 'a" where
  "min_key f best [] = best"
| "min_key f best (x # xs) = min_key f (if f x < f best then x else best) xs"

subsection \<open>Formatting an integer with \<^verbatim>\<open>{:,}\<close>\<close>

text \<open>
  \<^verbatim>\<open>f"{n:,}"\<close> writes \<open>n\<close> in decimal with a comma between groups of three digits,
  counted from the right, and a leading minus sign when \<open>n\<close> is negative.
\<close>

definition digit :: "nat \<Rightarrow> char" where
  "digit d = ''0123456789'' ! d"

fun decimal :: "nat \<Rightarrow> string" where
  "decimal n = (if n < 10 then [digit n] else decimal (n div 10) @ [digit (n mod 10)])"

declare decimal.simps [simp del]

fun group3 :: "string \<Rightarrow> string" where
  "group3 (a # b # c # d # ds) = a # b # c # CHR '','' # group3 (d # ds)"
| "group3 ds = ds"

definition fmt_commas :: "int \<Rightarrow> string" where
  "fmt_commas n = (if n < 0 then ''-'' else '''') @ rev (group3 (rev (decimal (nat \<bar>n\<bar>))))"

text \<open>The rupee sign U+20B9, as its three UTF-8 bytes.\<close>

definition rupee :: string where
  "rupee = [CHR 0xE2, CHR 0x82, CHR 0xB9]"

section \<open>\<^verbatim>\<open>agent/memory.py\<close>\<close>

definition load_memory :: "world \<Rightarrow> error + memory" where
  "load_memory w = json_load (MEMORY_FILE w)"

definition save_memory :: "world \<Rightarrow> memory \<Rightarrow> world" where
  "save_memory w data = w\<lparr>MEMORY_FILE := Json data\<rparr>"

text \<open>
  \<open>write_site_rules\<close> loads the whole store, sets the entry of the site, saves the whole
  store and returns the entry. It returns the world it leaves behind with its result;
  when loading raises, nothing has been written.
\<close>

definition write_site_rules :: "world \<Rightarrow> string \<Rightarrow> rules \<Rightarrow> world \<times> (error + rules)" where
  "write_site_rules w site r =
     (case load_memory w of
        Inl e \<Rightarrow> (w, Inl e)
      | Inr memory \<Rightarrow>
          (let memory' = memory(site \<mapsto> r);
               w' = save_memory w memory'
           in (w', case memory' site of None \<Rightarrow> Inl (KeyError site) | Some s \<Rightarrow> Inr s)))"

text \<open>\<open>read_site_rules\<close> is \<^verbatim>\<open>memory.get(site)\<close>: \<open>None\<close> for a site without an entry.\<close>

definition read_site_rules :: "world \<Rightarrow> string \<Rightarrow> error + rules option" where
  "read_site_rules w site =
     (case load_memory w of
        Inl e \<Rightarrow> Inl e
      | Inr memory \<Rightarrow> Inr (memory site))"

section \<open>\<^verbatim>\<open>agent/tools.py\<close>\<close>

definition load_vendors :: "world \<Rightarrow> error + vendor list" where
  "load_vendors w = json_load (VENDORS_FILE w)"

definition filter_vendors ::
    "(string \<Rightarrow> string) \<Rightarrow> vendor list \<Rightarrow> string list \<Rightarrow> vendor list" where
  "filter_vendors unicode_lower vendors banned =
     (let banned_lower = map (lower unicode_lower) banned
      in filter (\<lambda>v. lower unicode_lower (name v) \<notin> set banned_lower) vendors)"

definition select_cheapest :: "vendor list \<Rightarrow> vendor option" where
  "select_cheapest vendors =
     (case vendors of [] \<Rightarrow> None | v # vs \<Rightarrow> Some (min_key price v vs))"

text \<open>The dict returned by \<open>evaluate_vendors\<close>, with its three keys.\<close>

record evaluation =
  all_vendors :: "vendor list"
  valid_vendors :: "vendor list"
  selected :: "vendor option"

definition evaluate_vendors ::
    "(string \<Rightarrow> string) \<Rightarrow> world \<Rightarrow> string list \<Rightarrow> error + evaluation" where
  "evaluate_vendors unicode_lower w banned =
     (case load_vendors w of
        Inl e \<Rightarrow> Inl e
      | Inr catalog \<Rightarrow>
          (let valid = filter_vendors unicode_lower catalog banned;
               cheapest = select_cheapest valid
           in Inr \<lparr>all_vendors = catalog, valid_vendors = valid, selected = cheapest\<rparr>))"

section \<open>\<^verbatim>\<open>agent/state.py\<close>\<close>

definition pause_for_approval :: "string \<Rightarrow> string \<Rightarrow> int \<Rightarrow> int \<Rightarrow> pydict" where
  "pause_for_approval site vendor cost limit =
     [''status'' \<mapsto> VStr ''AWAITING_APPROVAL'',
      ''site'' \<mapsto> VStr site,
      ''selected_vendor'' \<mapsto> VStr vendor,
      ''amount'' \<mapsto> VInt cost,
      ''approval_limit'' \<mapsto> VInt limit,
      ''reason'' \<mapsto> VStr (''Cost '' @ rupee @ fmt_commas cost
                           @ '' exceeds site approval limit of '' @ rupee @ fmt_commas limit)]"

definition approve :: "pydict \<Rightarrow> pydict" where
  "approve paused_state = paused_state(''status'' \<mapsto> VStr ''APPROVED'')"

text \<open>
  \<open>reject\<close> has a default for its second parameter: \<open>None\<close> is the call that leaves
  it out.
\<close>

definition reject :: "pydict \<Rightarrow> string option \<Rightarrow> pydict" where
  "reject paused_state reason =
     paused_state(''status'' \<mapsto> VStr ''REJECTED'',
                  ''rejection_reason'' \<mapsto>
                     VStr (case reason of None \<Rightarrow> ''Rejected by manager'' | Some r \<Rightarrow> r))"

section \<open>\<^verbatim>\<open>agent/agent.py\<close>\<close>

definition process_procurement ::
    "(string \<Rightarrow> string) \<Rightarrow> world \<Rightarrow> string \<Rightarrow> string \<Rightarrow> int \<Rightarrow> error + pydict" where
  "process_procurement unicode_lower w site item quantity =
     (case read_site_rules w site of
        Inl e \<Rightarrow> Inl e
      | Inr None \<Rightarrow>
          Inr [''status'' \<mapsto> VStr ''ERROR'',
               ''reason'' \<mapsto> VStr (''No rules found for site '' @ [CHR 0x27] @ site @ [CHR 0x27]
                                    @ ''. Please set up site rules first.'')]
      | Inr (Some r) \<Rightarrow>
          (case approval_limit r of
             None \<Rightarrow> Inl (KeyError ''approval_limit'')
           | Some limit \<Rightarrow>
               (let banned = (case banned_vendors r of None \<Rightarrow> [] | Some bs \<Rightarrow> bs)
                in case evaluate_vendors unicode_lower w banned of
                     Inl e \<Rightarrow> Inl e
                   | Inr result \<Rightarrow>
                       (case selected result of
                          None \<Rightarrow>
                            Inr [''status'' \<mapsto> VStr ''REJECTED'',
                                 ''reason'' \<mapsto> VStr ''All vendors are banned. No valid vendor available.'',
                                 ''banned_vendors'' \<mapsto> VList banned]
                        | Some sel \<Rightarrow>
                            (let total_cost = price sel
                             in if total_cost \<le> limit
                                then Inr [''status'' \<mapsto> VStr ''APPROVED'',
                                          ''site'' \<mapsto> VStr site,
                                          ''item'' \<mapsto> VStr item,
                                          ''quantity'' \<mapsto> VInt quantity,
                                          ''selected_vendor'' \<mapsto> VStr (name sel),
                                          ''total_cost'' \<mapsto> VInt total_cost,
                                          ''approval_limit'' \<mapsto> VInt limit,
                                          ''reason'' \<mapsto> VStr (''Cost '' @ rupee @ fmt_commas total_cost
                                                               @ '' is within approval limit of ''
                                                               @ rupee @ fmt_commas limit)]
                                else Inr (pause_for_approval site (name sel) total_cost limit))))))"

section \<open>Notions used to state the properties\<close>

text \<open>
  The banned list the order pipeline works with: \<^verbatim>\<open>rules.get("banned_vendors", [])\<close>.
\<close>

abbreviation banned_of :: "rules \<Rightarrow> string list" where
  "banned_of r \<equiv> (case banned_vendors r of None \<Rightarrow> [] | Some bs \<Rightarrow> bs)"




text \<open>
  A run of calls of \<open>write_site_rules\<close>, one after the other, each on the world the
  previous call left behind.
\<close>

fun write_all :: "world \<Rightarrow> (string \<times> rules) list \<Rightarrow> world" where
  "write_all w [] = w"
| "write_all w ((site, r) # ws) = write_all (fst (write_site_rules w site r)) ws"

text \<open>
  A concrete world for the examples: a catalog of three vendors, and a store that
  holds rules for the site Pune only.
\<close>

definition demo_catalog :: "vendor list" where
  "demo_catalog = [\<lparr>name = ''UltraTech'', price = 45000\<rparr>,
                   \<lparr>name = ''BadRock'', price = 38000\<rparr>,
                   \<lparr>name = ''ACC'', price = 42000\<rparr>]"

definition demo_world :: "string list \<Rightarrow> int \<Rightarrow> world" where
  "demo_world banned limit =
     \<lparr>MEMORY_FILE = Json [''Pune'' \<mapsto> \<lparr>approval_limit = Some limit, banned_vendors = Some banned\<rparr>],
      VENDORS_FILE = Json demo_catalog\<rparr>"

section \<open>Auxiliary lemmas\<close>

subsection \<open>The loop of \<^verbatim>\<open>min\<close>\<close>

lemma min_key_snoc:
  "min_key f best (xs @ [x]) = (let m = min_key f best xs in if f x < f m then x else m)"
  by (induction xs arbitrary: best) (simp_all add: Let_def)

lemma min_key_index:
  "\<exists>i \<le> length xs. min_key f best xs = (best # xs) ! i
       \<and> (\<forall>j \<le> length xs. f ((best # xs) ! i) \<le> f ((best # xs) ! j))
       \<and> (\<forall>j < i. f ((best # xs) ! i) < f ((best # xs) ! j))"
proof (induction xs rule: rev_induct)
  case Nil
  show ?case by simp
next
  case (snoc x xs)
  then obtain i where i: "i \<le> length xs" "min_key f best xs = (best # xs) ! i"
    and le: "\<forall>j \<le> length xs. f ((best # xs) ! i) \<le> f ((best # xs) ! j)"
    and lt: "\<forall>j < i. f ((best # xs) ! i) < f ((best # xs) ! j)"
    by blast
  let ?ys = "best # xs @ [x]"
  have old: "?ys ! j = (best # xs) ! j" if "j \<le> length xs" for j
    using that by (metis Cons_eq_appendI length_Cons less_Suc_eq_le nth_append)
  have new: "?ys ! Suc (length xs) = x"
    by (metis Cons_eq_appendI length_Cons nth_append_length)
  show ?case
  proof (cases "f x < f (min_key f best xs)")
    case True
    have "\<forall>j \<le> length (xs @ [x]). f x \<le> f (?ys ! j)"
    proof (intro allI impI)
      fix j assume "j \<le> length (xs @ [x])"
      then consider "j \<le> length xs" | "j = Suc (length xs)" by fastforce
      then show "f x \<le> f (?ys ! j)"
      proof cases
        case 1
        with le i True old show ?thesis by fastforce
      next
        case 2
        with new show ?thesis by simp
      qed
    qed
    moreover have "\<forall>j < Suc (length xs). f x < f (?ys ! j)"
    proof (intro allI impI)
      fix j assume "j < Suc (length xs)"
      then have j: "j \<le> length xs" by simp
      with le i True old show "f x < f (?ys ! j)" by fastforce
    qed
    ultimately show ?thesis
      using True new by (intro exI [of _ "Suc (length xs)"]) (simp add: min_key_snoc)
  next
    case False
    have "\<forall>j \<le> length (xs @ [x]). f ((best # xs) ! i) \<le> f (?ys ! j)"
    proof (intro allI impI)
      fix j assume "j \<le> length (xs @ [x])"
      then consider "j \<le> length xs" | "j = Suc (length xs)" by fastforce
      then show "f ((best # xs) ! i) \<le> f (?ys ! j)"
      proof cases
        case 1
        with le old show ?thesis by simp
      next
        case 2
        with new False i show ?thesis by simp
      qed
    qed
    moreover have "\<forall>j < i. f ((best # xs) ! i) < f (?ys ! j)"
      using lt old i by simp
    ultimately show ?thesis
      using False i old [of i] by (intro exI [of _ i]) (simp add: min_key_snoc)
  qed
qed

subsection \<open>Filtering and selection\<close>

lemma filter_vendors_eq_filter:
  "filter_vendors ul vendors banned = filter (\<lambda>v. lower ul (name v) \<notin> lower ul ` set banned) vendors"
  by (simp add: filter_vendors_def)

lemma select_cheapest_None: "select_cheapest vs = None \<longleftrightarrow> vs = []"
  by (simp add: select_cheapest_def split: list.splits)





subsection \<open>The rule store\<close>

lemma load_memory_write:
  "load_memory (fst (write_site_rules w site r)) =
     (case load_memory w of Inl e \<Rightarrow> Inl e | Inr m \<Rightarrow> Inr (m(site \<mapsto> r)))"
  by (simp add: write_site_rules_def load_memory_def save_memory_def json_load_def Let_def
        split: sum.splits)

lemma load_memory_write_all:
  "load_memory w = Inr m \<Longrightarrow> site \<notin> fst ` set ws \<Longrightarrow>
     \<exists>m'. load_memory (write_all w ws) = Inr m' \<and> m' site = m site"
proof (induction ws arbitrary: w m)
  case Nil
  then show ?case by simp
next
  case (Cons a ws)
  obtain s r where a: "a = (s, r)" by (cases a)
  with Cons.prems have ne: "s \<noteq> site" and rest: "site \<notin> fst ` set ws" by auto
  from Cons.prems(1) have "load_memory (fst (write_site_rules w s r)) = Inr (m(s \<mapsto> r))"
    by (simp add: load_memory_write)
  from Cons.IH [OF this rest] ne a show ?case by simp
qed

lemma read_site_rules_loaded:
  "MEMORY_FILE w = Json m \<Longrightarrow> read_site_rules w site = Inr (m site)"
  by (simp add: read_site_rules_def load_memory_def json_load_def)

subsection \<open>The branches of \<open>process_procurement\<close>\<close>

lemma process_procurement_no_rules:
  "read_site_rules w site = Inr None \<Longrightarrow>
     process_procurement ul w site item quantity =
       Inr [''status'' \<mapsto> VStr ''ERROR'',
            ''reason'' \<mapsto> VStr (''No rules found for site '' @ [CHR 0x27] @ site @ [CHR 0x27]
                                 @ ''. Please set up site rules first.'')]"
  by (simp add: process_procurement_def)

lemma process_procurement_none_selected:
  "read_site_rules w site = Inr (Some r) \<Longrightarrow> approval_limit r = Some limit \<Longrightarrow>
   evaluate_vendors ul w (banned_of r) = Inr result \<Longrightarrow> selected result = None \<Longrightarrow>
     process_procurement ul w site item quantity =
       Inr [''status'' \<mapsto> VStr ''REJECTED'',
            ''reason'' \<mapsto> VStr ''All vendors are banned. No valid vendor available.'',
            ''banned_vendors'' \<mapsto> VList (banned_of r)]"
  by (simp add: process_procurement_def)

lemma process_procurement_selected:
  "read_site_rules w site = Inr (Some r) \<Longrightarrow> approval_limit r = Some limit \<Longrightarrow>
   evaluate_vendors ul w (banned_of r) = Inr result \<Longrightarrow> selected result = Some v \<Longrightarrow>
     process_procurement ul w site item quantity =
       (if price v \<le> limit
        then Inr [''status'' \<mapsto> VStr ''APPROVED'',
                  ''site'' \<mapsto> VStr site,
                  ''item'' \<mapsto> VStr item,
                  ''quantity'' \<mapsto> VInt quantity,
                  ''selected_vendor'' \<mapsto> VStr (name v),
                  ''total_cost'' \<mapsto> VInt (price v),
                  ''approval_limit'' \<mapsto> VInt limit,
                  ''reason'' \<mapsto> VStr (''Cost '' @ rupee @ fmt_commas (price v)
                                       @ '' is within approval limit of ''
                                       @ rupee @ fmt_commas limit)]
        else Inr (pause_for_approval site (name v) (price v) limit))"
  by (simp add: process_procurement_def Let_def)

lemma evaluate_vendors_loaded:
  "VENDORS_FILE w = Json catalog \<Longrightarrow>
     evaluate_vendors ul w banned =
       Inr \<lparr>all_vendors = catalog, valid_vendors = filter_vendors ul catalog banned,
            selected = select_cheapest (filter_vendors ul catalog banned)\<rparr>"
  by (simp add: evaluate_vendors_def load_vendors_def json_load_def Let_def)

lemma process_procurement_ignores_order:
  "k \<noteq> ''item'' \<Longrightarrow> k \<noteq> ''quantity'' \<Longrightarrow>
     map_sum id (\<lambda>d. d k) (process_procurement ul w site item quantity)
       = map_sum id (\<lambda>d. d k) (process_procurement ul w site item' quantity')"
  by (simp add: process_procurement_def Let_def split: sum.splits option.splits)

subsection \<open>The example world\<close>

lemma fmt_commas_45000: "fmt_commas 45000 = ''45,000''"
  by (simp add: fmt_commas_def decimal.simps [of 45000] decimal.simps [of 4500]
        decimal.simps [of 450] decimal.simps [of 45] decimal.simps [of 4] digit_def)

lemma fmt_commas_40000: "fmt_commas 40000 = ''40,000''"
  by (simp add: fmt_commas_def decimal.simps [of 40000] decimal.simps [of 4000]
        decimal.simps [of 400] decimal.simps [of 40] decimal.simps [of 4] digit_def)

lemma demo_read:
  "read_site_rules (demo_world banned limit) ''Pune''
     = Inr (Some \<lparr>approval_limit = Some limit, banned_vendors = Some banned\<rparr>)"
  "read_site_rules (demo_world banned limit) ''Goa'' = Inr None"
  by (simp_all add: demo_world_def read_site_rules_def load_memory_def json_load_def)

lemma demo_filter:
  "filter_vendors ul demo_catalog [''badrock''] =
     [\<lparr>name = ''UltraTech'', price = 45000\<rparr>, \<lparr>name = ''ACC'', price = 42000\<rparr>]"
  "filter_vendors ul demo_catalog [] = demo_catalog"
  "filter_vendors ul demo_catalog [''ultratech'', ''BADROCK'', ''Acc''] = []"
  by (simp_all add: demo_catalog_def filter_vendors_def lower_def is_ascii_def lower_char_def)

lemma demo_evaluate:
  "evaluate_vendors ul (demo_world b limit) banned =
     Inr \<lparr>all_vendors = demo_catalog, valid_vendors = filter_vendors ul demo_catalog banned,
          selected = select_cheapest (filter_vendors ul demo_catalog banned)\<rparr>"
  by (simp add: evaluate_vendors_loaded demo_world_def)

lemma demo_select:
  "select_cheapest [\<lparr>name = ''UltraTech'', price = 45000\<rparr>, \<lparr>name = ''ACC'', price = 42000\<rparr>]
     = Some \<lparr>name = ''ACC'', price = 42000\<rparr>"
  "select_cheapest demo_catalog = Some \<lparr>name = ''BadRock'', price = 38000\<rparr>"
  by (simp_all add: select_cheapest_def demo_catalog_def)

section \<open>Properties\<close>

subsection \<open>The order pipeline\<close>

text \<open>
  Claim C1, as amended. \<open>process_procurement\<close> follows the composition rule. When
  the store loads and has no rules for the site, it returns an ERROR dict whose reason
  names the site, without opening the catalog. When the site has rules with an
  approval limit and the catalog loads: if no vendor of the catalog survives the
  filter against the site's banned list it returns a REJECTED dict whose reason is the
  text \<^verbatim>\<open>All vendors are banned. No valid vendor available.\<close> and which carries the
  banned list; otherwise the cheapest surviving vendor is selected and the status is
  decided by comparing its price with the approval limit. Item and quantity are
  carried for reporting only: for any two orders at the same site the results agree on
  every key other than \<^verbatim>\<open>item\<close> and \<^verbatim>\<open>quantity\<close>, in every world.
\<close>

theorem process_procurement_composition:
  assumes mem: "MEMORY_FILE w = Json m"
  shows "(m site = None \<longrightarrow>
            process_procurement ul w site item quantity =
              Inr [''status'' \<mapsto> VStr ''ERROR'',
                   ''reason'' \<mapsto> VStr (''No rules found for site '' @ [CHR 0x27] @ site @ [CHR 0x27]
                                        @ ''. Please set up site rules first.'')])
       \<and> (\<forall>r limit catalog.
            m site = Some r \<and> approval_limit r = Some limit \<and> VENDORS_FILE w = Json catalog \<longrightarrow>
            (filter_vendors ul catalog (banned_of r) = [] \<longrightarrow>
               process_procurement ul w site item quantity =
                 Inr [''status'' \<mapsto> VStr ''REJECTED'',
                      ''reason'' \<mapsto> VStr ''All vendors are banned. No valid vendor available.'',
                      ''banned_vendors'' \<mapsto> VList (banned_of r)])
          \<and> (filter_vendors ul catalog (banned_of r) \<noteq> [] \<longrightarrow>
               (\<exists>v d. select_cheapest (filter_vendors ul catalog (banned_of r)) = Some v
                  \<and> process_procurement ul w site item quantity = Inr d
                  \<and> d ''selected_vendor'' = Some (VStr (name v))
                  \<and> d ''approval_limit'' = Some (VInt limit)
                  \<and> d ''status'' = Some (VStr (if price v \<le> limit then ''APPROVED''
                                                else ''AWAITING_APPROVAL'')))))
       \<and> (\<forall>k item' quantity'. k \<noteq> ''item'' \<and> k \<noteq> ''quantity'' \<longrightarrow>
            map_sum id (\<lambda>d. d k) (process_procurement ul w site item quantity)
              = map_sum id (\<lambda>d. d k) (process_procurement ul w site item' quantity'))"
proof (intro conjI allI impI)
  assume "m site = None"
  with mem show "process_procurement ul w site item quantity =
      Inr [''status'' \<mapsto> VStr ''ERROR'',
           ''reason'' \<mapsto> VStr (''No rules found for site '' @ [CHR 0x27] @ site @ [CHR 0x27]
                                @ ''. Please set up site rules first.'')]"
    by (intro process_procurement_no_rules) (simp add: read_site_rules_loaded)
next
  fix r limit catalog
  assume r: "m site = Some r \<and> approval_limit r = Some limit \<and> VENDORS_FILE w = Json catalog"
    and none: "filter_vendors ul catalog (banned_of r) = []"
  from r have cat: "VENDORS_FILE w = Json catalog" by simp
  from mem r have rd: "read_site_rules w site = Inr (Some r)"
    by (simp add: read_site_rules_loaded)
  show "process_procurement ul w site item quantity =
      Inr [''status'' \<mapsto> VStr ''REJECTED'',
           ''reason'' \<mapsto> VStr ''All vendors are banned. No valid vendor available.'',
           ''banned_vendors'' \<mapsto> VList (banned_of r)]"
    using r none
    by (intro process_procurement_none_selected [OF rd _ evaluate_vendors_loaded [OF cat]])
       (simp_all add: select_cheapest_def)
next
  fix r limit catalog
  assume r: "m site = Some r \<and> approval_limit r = Some limit \<and> VENDORS_FILE w = Json catalog"
    and some: "filter_vendors ul catalog (banned_of r) \<noteq> []"
  from r have cat: "VENDORS_FILE w = Json catalog" by simp
  from mem r have rd: "read_site_rules w site = Inr (Some r)"
    by (simp add: read_site_rules_loaded)
  from some obtain v where v: "select_cheapest (filter_vendors ul catalog (banned_of r)) = Some v"
    using select_cheapest_None by fastforce
  have "process_procurement ul w site item quantity =
       (if price v \<le> limit
        then Inr [''status'' \<mapsto> VStr ''APPROVED'',
                  ''site'' \<mapsto> VStr site,
                  ''item'' \<mapsto> VStr item,
                  ''quantity'' \<mapsto> VInt quantity,
                  ''selected_vendor'' \<mapsto> VStr (name v),
                  ''total_cost'' \<mapsto> VInt (price v),
                  ''approval_limit'' \<mapsto> VInt limit,
                  ''reason'' \<mapsto> VStr (''Cost '' @ rupee @ fmt_commas (price v)
                                       @ '' is within approval limit of ''
                                       @ rupee @ fmt_commas limit)]
        else Inr (pause_for_approval site (name v) (price v) limit))"
    using r v
    by (intro process_procurement_selected [OF rd _ evaluate_vendors_loaded [OF cat]]) simp_all
  with v show "\<exists>v d. select_cheapest (filter_vendors ul catalog (banned_of r)) = Some v
                  \<and> process_procurement ul w site item quantity = Inr d
                  \<and> d ''selected_vendor'' = Some (VStr (name v))
                  \<and> d ''approval_limit'' = Some (VInt limit)
                  \<and> d ''status'' = Some (VStr (if price v \<le> limit then ''APPROVED''
                                                else ''AWAITING_APPROVAL''))"
    by (cases "price v \<le> limit") (simp_all add: pause_for_approval_def)
next
  fix k item' quantity'
  assume "k \<noteq> ''item'' \<and> k \<noteq> ''quantity''"
  then show "map_sum id (\<lambda>d. d k) (process_procurement ul w site item quantity)
              = map_sum id (\<lambda>d. d k) (process_procurement ul w site item' quantity')"
    using process_procurement_ignores_order by blast
qed

text \<open>
  The witness: the world holds rules for Pune only and the three vendors of the
  example catalog. The catalog file of the first world is absent: the ERROR dict for
  the unknown site Goa is returned all the same.
\<close>

theorem process_procurement_composition_witness:
  "process_procurement id \<lparr>MEMORY_FILE = Json Map.empty, VENDORS_FILE = Absent\<rparr>
       ''Goa'' ''cement'' 100 =
     Inr [''status'' \<mapsto> VStr ''ERROR'',
          ''reason'' \<mapsto> VStr (''No rules found for site '' @ [CHR 0x27] @ ''Goa'' @ [CHR 0x27]
                               @ ''. Please set up site rules first.'')]
   \<and> process_procurement id (demo_world [''ultratech'', ''BADROCK'', ''Acc''] 50000)
         ''Pune'' ''cement'' 100 =
       Inr [''status'' \<mapsto> VStr ''REJECTED'',
            ''reason'' \<mapsto> VStr ''All vendors are banned. No valid vendor available.'',
            ''banned_vendors'' \<mapsto> VList [''ultratech'', ''BADROCK'', ''Acc'']]
   \<and> (\<exists>d. process_procurement id (demo_world [''badrock''] 40000) ''Pune'' ''cement'' 100 = Inr d
         \<and> d ''selected_vendor'' = Some (VStr ''ACC'')
         \<and> d ''status'' = Some (VStr ''AWAITING_APPROVAL''))"
proof (intro conjI)
  have mem: "MEMORY_FILE (demo_world b l) =
      Json [''Pune'' \<mapsto> \<lparr>approval_limit = Some l, banned_vendors = Some b\<rparr>]"
    and cat: "VENDORS_FILE (demo_world b l) = Json demo_catalog" for b l
    by (simp_all add: demo_world_def)
  have empty: "MEMORY_FILE \<lparr>MEMORY_FILE = Json Map.empty, VENDORS_FILE = Absent\<rparr>
      = Json (Map.empty :: memory)"
    by simp
  from process_procurement_composition [OF empty,
    where site = "''Goa''" and item = "''cement''" and quantity = 100 and ul = id]
  show "process_procurement id \<lparr>MEMORY_FILE = Json Map.empty, VENDORS_FILE = Absent\<rparr>
       ''Goa'' ''cement'' 100 =
     Inr [''status'' \<mapsto> VStr ''ERROR'',
          ''reason'' \<mapsto> VStr (''No rules found for site '' @ [CHR 0x27] @ ''Goa'' @ [CHR 0x27]
                               @ ''. Please set up site rules first.'')]"
    by simp
  from process_procurement_composition
    [OF mem [of "[''ultratech'', ''BADROCK'', ''Acc'']" 50000],
     where site = "''Pune''" and item = "''cement''" and quantity = 100 and ul = id]
    cat [of "[''ultratech'', ''BADROCK'', ''Acc'']" 50000]
  show "process_procurement id (demo_world [''ultratech'', ''BADROCK'', ''Acc''] 50000)
         ''Pune'' ''cement'' 100 =
       Inr [''status'' \<mapsto> VStr ''REJECTED'',
            ''reason'' \<mapsto> VStr ''All vendors are banned. No valid vendor available.'',
            ''banned_vendors'' \<mapsto> VList [''ultratech'', ''BADROCK'', ''Acc'']]"
    by (simp add: demo_filter)
  from process_procurement_composition
    [OF mem [of "[''badrock'']" 40000],
     where site = "''Pune''" and item = "''cement''" and quantity = 100 and ul = id]
    cat [of "[''badrock'']" 40000]
  show "\<exists>d. process_procurement id (demo_world [''badrock''] 40000) ''Pune'' ''cement'' 100 = Inr d
         \<and> d ''selected_vendor'' = Some (VStr ''ACC'')
         \<and> d ''status'' = Some (VStr ''AWAITING_APPROVAL'')"
    by (auto simp: demo_filter demo_select)
qed

text \<open>
  The claim as first worded gives the reason of the REJECTED dict as the text
  \<^verbatim>\<open>all vendors banned\<close>. With all three vendors of the catalog banned, the reason
  returned is another text.
\<close>

theorem process_procurement_reason_counterexample:
  "process_procurement id (demo_world [''ultratech'', ''BADROCK'', ''Acc''] 50000)
       ''Pune'' ''cement'' 100 =
     Inr [''status'' \<mapsto> VStr ''REJECTED'',
          ''reason'' \<mapsto> VStr ''All vendors are banned. No valid vendor available.'',
          ''banned_vendors'' \<mapsto> VList [''ultratech'', ''BADROCK'', ''Acc'']]
   \<and> [''status'' \<mapsto> VStr ''REJECTED'',
       ''reason'' \<mapsto> VStr ''All vendors are banned. No valid vendor available.'',
       ''banned_vendors'' \<mapsto> VList [''ultratech'', ''BADROCK'', ''Acc'']] ''reason''
     \<noteq> Some (VStr ''all vendors banned'')"
proof
  have "evaluate_vendors id (demo_world [''ultratech'', ''BADROCK'', ''Acc''] 50000)
          (banned_of \<lparr>approval_limit = Some 50000,
                      banned_vendors = Some [''ultratech'', ''BADROCK'', ''Acc'']\<rparr>)
        = Inr \<lparr>all_vendors = demo_catalog, valid_vendors = [], selected = None\<rparr>"
    by (simp add: demo_evaluate demo_filter select_cheapest_def)
  from process_procurement_none_selected [OF demo_read(1) _ this, of 50000 "''cement''" 100]
  show "process_procurement id (demo_world [''ultratech'', ''BADROCK'', ''Acc''] 50000)
       ''Pune'' ''cement'' 100 =
     Inr [''status'' \<mapsto> VStr ''REJECTED'',
          ''reason'' \<mapsto> VStr ''All vendors are banned. No valid vendor available.'',
          ''banned_vendors'' \<mapsto> VList [''ultratech'', ''BADROCK'', ''Acc'']]"
    by simp
  show "[''status'' \<mapsto> VStr ''REJECTED'',
       ''reason'' \<mapsto> VStr ''All vendors are banned. No valid vendor available.'',
       ''banned_vendors'' \<mapsto> VList [''ultratech'', ''BADROCK'', ''Acc'']] ''reason''
     \<noteq> Some (VStr ''all vendors banned'')"
    by simp
qed

subsection \<open>Vendor selection and filtering\<close>

text \<open>
  Claim C2. On a non-empty list \<open>select_cheapest\<close> returns the vendor at some position
  \<open>i\<close> of the list, whose price is at most the price of every vendor of the list and
  strictly below the price of every vendor listed before it, so that among vendors of
  equal lowest price the earliest is returned. On the empty list it returns \<open>None\<close>;
  the function is total, so nothing is raised.
\<close>

theorem select_cheapest_min:
  "(vendors = [] \<longrightarrow> select_cheapest vendors = None) \<and>
   (vendors \<noteq> [] \<longrightarrow>
      (\<exists>i < length vendors. select_cheapest vendors = Some (vendors ! i)
         \<and> (\<forall>j < length vendors. price (vendors ! i) \<le> price (vendors ! j))
         \<and> (\<forall>j < i. price (vendors ! i) < price (vendors ! j))))"
proof (cases vendors)
  case Nil
  then show ?thesis by (simp add: select_cheapest_def)
next
  case (Cons v vs)
  from min_key_index [of vs price v] obtain i where
    "i \<le> length vs" "min_key price v vs = (v # vs) ! i"
    "\<forall>j \<le> length vs. price ((v # vs) ! i) \<le> price ((v # vs) ! j)"
    "\<forall>j < i. price ((v # vs) ! i) < price ((v # vs) ! j)"
    by blast
  with Cons show ?thesis
    by (auto simp: select_cheapest_def less_Suc_eq_le intro!: exI [of _ i])
qed

theorem select_cheapest_min_witness:
  "select_cheapest [] = None
   \<and> (\<exists>i < 3. select_cheapest [\<lparr>name = ''a'', price = 3\<rparr>, \<lparr>name = ''b'', price = 2\<rparr>,
                                 \<lparr>name = ''c'', price = 2\<rparr>]
                 = Some ([\<lparr>name = ''a'', price = 3\<rparr>, \<lparr>name = ''b'', price = 2\<rparr>,
                          \<lparr>name = ''c'', price = 2\<rparr>] ! i))
   \<and> select_cheapest [\<lparr>name = ''a'', price = 3\<rparr>, \<lparr>name = ''b'', price = 2\<rparr>,
                      \<lparr>name = ''c'', price = 2\<rparr>] = Some \<lparr>name = ''b'', price = 2\<rparr>"
proof (intro conjI)
  from select_cheapest_min [of "[]"] show "select_cheapest [] = None" by simp
  from select_cheapest_min [of "[\<lparr>name = ''a'', price = 3\<rparr>, \<lparr>name = ''b'', price = 2\<rparr>,
                                  \<lparr>name = ''c'', price = 2\<rparr>]"]
  show "\<exists>i < 3. select_cheapest [\<lparr>name = ''a'', price = 3\<rparr>, \<lparr>name = ''b'', price = 2\<rparr>,
                                 \<lparr>name = ''c'', price = 2\<rparr>]
                 = Some ([\<lparr>name = ''a'', price = 3\<rparr>, \<lparr>name = ''b'', price = 2\<rparr>,
                          \<lparr>name = ''c'', price = 2\<rparr>] ! i)"
    by (auto simp: numeral_3_eq_3)
  show "select_cheapest [\<lparr>name = ''a'', price = 3\<rparr>, \<lparr>name = ''b'', price = 2\<rparr>,
                      \<lparr>name = ''c'', price = 2\<rparr>] = Some \<lparr>name = ''b'', price = 2\<rparr>"
    by (simp add: select_cheapest_def)
qed



text \<open>
  Claim C7. \<open>filter_vendors\<close> is idempotent: filtering a filtered list again with the
  same banned list returns the same list.
\<close>

theorem filter_vendors_idempotent:
  "filter_vendors ul (filter_vendors ul vendors banned) banned = filter_vendors ul vendors banned"
  by (simp add: filter_vendors_eq_filter)

theorem filter_vendors_idempotent_witness:
  "filter_vendors id [\<lparr>name = ''UltraTech'', price = 45000\<rparr>, \<lparr>name = ''ACC'', price = 42000\<rparr>]
     [''badrock''] = [\<lparr>name = ''UltraTech'', price = 45000\<rparr>, \<lparr>name = ''ACC'', price = 42000\<rparr>]"
  using filter_vendors_idempotent [where ul = id and vendors = demo_catalog and banned = "[''badrock'']"]
  by (simp add: demo_filter)

subsection \<open>The approval gate\<close>

text \<open>
  Claim C3. The approval gate is the comparison at the end of \<open>process_procurement\<close>.
  Whenever rules with an approval limit are stored for the site and a vendor is
  selected, the result is a dict carrying the vendor's name and the limit; when the
  cost (the selected vendor's price) is at most the limit, the boundary included, its
  status is APPROVED and it carries the cost under \<^verbatim>\<open>total_cost\<close>; when the cost exceeds
  the limit it is the dict built by \<open>pause_for_approval\<close>, with status
  AWAITING_APPROVAL and the cost under \<^verbatim>\<open>amount\<close>. No other status comes out of the
  comparison. This holds for all integers, negative ones included.
\<close>

theorem approval_gate:
  assumes "read_site_rules w site = Inr (Some r)" and "approval_limit r = Some limit"
    and "evaluate_vendors ul w (banned_of r) = Inr result" and "selected result = Some v"
  shows "\<exists>d. process_procurement ul w site item quantity = Inr d
           \<and> d ''selected_vendor'' = Some (VStr (name v))
           \<and> d ''approval_limit'' = Some (VInt limit)
           \<and> (price v \<le> limit \<longrightarrow>
                d ''status'' = Some (VStr ''APPROVED'')
                \<and> d ''total_cost'' = Some (VInt (price v)))
           \<and> (limit < price v \<longrightarrow>
                d = pause_for_approval site (name v) (price v) limit
                \<and> d ''status'' = Some (VStr ''AWAITING_APPROVAL'')
                \<and> d ''amount'' = Some (VInt (price v)))
           \<and> (d ''status'' = Some (VStr ''APPROVED'')
                \<or> d ''status'' = Some (VStr ''AWAITING_APPROVAL''))"
  using process_procurement_selected [OF assms, of item quantity]
  by (cases "price v \<le> limit") (simp_all add: pause_for_approval_def)

theorem approval_gate_witness:
  "(\<exists>d. process_procurement id (demo_world [''badrock''] 40000) ''Pune'' ''cement'' 100 = Inr d
        \<and> d ''status'' = Some (VStr ''AWAITING_APPROVAL'')
        \<and> d ''selected_vendor'' = Some (VStr ''ACC'')
        \<and> d ''amount'' = Some (VInt 42000)
        \<and> d ''approval_limit'' = Some (VInt 40000))
   \<and> (\<exists>d. process_procurement id (demo_world [] 38000) ''Pune'' ''cement'' 100 = Inr d
        \<and> d ''status'' = Some (VStr ''APPROVED'')
        \<and> d ''selected_vendor'' = Some (VStr ''BadRock'')
        \<and> d ''total_cost'' = Some (VInt 38000)
        \<and> d ''approval_limit'' = Some (VInt 38000))"
proof
  have "evaluate_vendors id (demo_world [''badrock''] 40000)
          (banned_of \<lparr>approval_limit = Some 40000, banned_vendors = Some [''badrock'']\<rparr>)
        = Inr \<lparr>all_vendors = demo_catalog,
               valid_vendors = filter_vendors id demo_catalog [''badrock''],
               selected = Some \<lparr>name = ''ACC'', price = 42000\<rparr>\<rparr>"
    by (simp add: demo_evaluate demo_filter demo_select)
  from approval_gate [OF demo_read(1) _ this, of 40000 "\<lparr>name = ''ACC'', price = 42000\<rparr>" "''cement''" 100]
  show "\<exists>d. process_procurement id (demo_world [''badrock''] 40000) ''Pune'' ''cement'' 100 = Inr d
        \<and> d ''status'' = Some (VStr ''AWAITING_APPROVAL'')
        \<and> d ''selected_vendor'' = Some (VStr ''ACC'')
        \<and> d ''amount'' = Some (VInt 42000)
        \<and> d ''approval_limit'' = Some (VInt 40000)"
    by auto
next
  have "evaluate_vendors id (demo_world [] 38000)
          (banned_of \<lparr>approval_limit = Some 38000, banned_vendors = Some []\<rparr>)
        = Inr \<lparr>all_vendors = demo_catalog,
               valid_vendors = filter_vendors id demo_catalog [],
               selected = Some \<lparr>name = ''BadRock'', price = 38000\<rparr>\<rparr>"
    by (simp add: demo_evaluate demo_filter demo_select)
  from approval_gate [OF demo_read(1) _ this, of 38000 "\<lparr>name = ''BadRock'', price = 38000\<rparr>" "''cement''" 100]
  show "\<exists>d. process_procurement id (demo_world [] 38000) ''Pune'' ''cement'' 100 = Inr d
        \<and> d ''status'' = Some (VStr ''APPROVED'')
        \<and> d ''selected_vendor'' = Some (VStr ''BadRock'')
        \<and> d ''total_cost'' = Some (VInt 38000)
        \<and> d ''approval_limit'' = Some (VInt 38000)"
    by auto
qed

text \<open>
  Claim C8. On the dict built by \<open>pause_for_approval\<close>, \<open>approve\<close> sets the status to
  APPROVED and leaves every other key as it was; \<open>reject\<close> sets the status to
  REJECTED, attaches the reason under the new key \<^verbatim>\<open>rejection_reason\<close> and leaves every
  other key as it was. The reason is \<^verbatim>\<open>Rejected by manager\<close> when none is given.
\<close>

theorem approve_reject_paused:
  "pause_for_approval site vendor cost limit ''status'' = Some (VStr ''AWAITING_APPROVAL'')
   \<and> approve (pause_for_approval site vendor cost limit) ''status'' = Some (VStr ''APPROVED'')
   \<and> (\<forall>k. k \<noteq> ''status'' \<longrightarrow>
         approve (pause_for_approval site vendor cost limit) k
           = pause_for_approval site vendor cost limit k)
   \<and> reject (pause_for_approval site vendor cost limit) ropt ''status'' = Some (VStr ''REJECTED'')
   \<and> reject (pause_for_approval site vendor cost limit) (Some reason) ''rejection_reason''
        = Some (VStr reason)
   \<and> reject (pause_for_approval site vendor cost limit) None ''rejection_reason''
        = Some (VStr ''Rejected by manager'')
   \<and> pause_for_approval site vendor cost limit ''rejection_reason'' = None
   \<and> (\<forall>k. k \<noteq> ''status'' \<and> k \<noteq> ''rejection_reason'' \<longrightarrow>
         reject (pause_for_approval site vendor cost limit) ropt k
           = pause_for_approval site vendor cost limit k)"
  by (simp add: approve_def reject_def pause_for_approval_def)

theorem approve_reject_paused_witness:
  "approve (pause_for_approval ''Pune'' ''ACC'' 42000 40000) ''amount'' = Some (VInt 42000)
   \<and> approve (pause_for_approval ''Pune'' ''ACC'' 42000 40000) ''status'' = Some (VStr ''APPROVED'')
   \<and> reject (pause_for_approval ''Pune'' ''ACC'' 42000 40000) None ''selected_vendor''
        = Some (VStr ''ACC'')
   \<and> reject (pause_for_approval ''Pune'' ''ACC'' 42000 40000) None ''rejection_reason''
        = Some (VStr ''Rejected by manager'')"
  using approve_reject_paused [of "''Pune''" "''ACC''" 42000 40000 None "''unused''"]
  by (simp add: pause_for_approval_def)

text \<open>
  Claim C10. \<open>approve\<close> and \<open>reject\<close> do not look at the status of their argument.
  For every dict, \<open>approve\<close> returns it with the status replaced by APPROVED and every
  other key unchanged, and \<open>reject\<close> returns it with the status replaced by REJECTED
  and the rejection reason added; so a dict that is already approved or rejected is
  accepted as well. Approving a paused outcome keeps the reason text of the pause,
  which says that the cost exceeds the limit.
\<close>

theorem approve_reject_any_status:
  "(\<forall>k. approve d k = (if k = ''status'' then Some (VStr ''APPROVED'') else d k))
   \<and> (\<forall>k. reject d ropt k =
         (if k = ''rejection_reason''
          then Some (VStr (case ropt of None \<Rightarrow> ''Rejected by manager'' | Some reason \<Rightarrow> reason))
          else if k = ''status'' then Some (VStr ''REJECTED'') else d k))
   \<and> approve (approve d) = approve d
   \<and> approve (reject d ropt) ''status'' = Some (VStr ''APPROVED'')
   \<and> reject (approve d) ropt ''status'' = Some (VStr ''REJECTED'')
   \<and> approve (pause_for_approval site vendor cost limit) ''reason''
        = Some (VStr (''Cost '' @ rupee @ fmt_commas cost
                      @ '' exceeds site approval limit of '' @ rupee @ fmt_commas limit))"
  by (simp add: approve_def reject_def pause_for_approval_def)

theorem approve_reject_any_status_witness:
  "approve (pause_for_approval ''Pune'' ''UltraTech'' 45000 40000) ''reason''
     = Some (VStr (''Cost '' @ rupee @ ''45,000 exceeds site approval limit of ''
                   @ rupee @ ''40,000''))
   \<and> approve (approve Map.empty) ''status'' = Some (VStr ''APPROVED'')
   \<and> reject (approve Map.empty) (Some ''late'') ''rejection_reason'' = Some (VStr ''late'')"
proof -
  note any = approve_reject_any_status
    [of "approve Map.empty" "Some ''late''" "''Pune''" "''UltraTech''" 45000 40000]
  from any have "approve (pause_for_approval ''Pune'' ''UltraTech'' 45000 40000) ''reason''
     = Some (VStr (''Cost '' @ rupee @ ''45,000 exceeds site approval limit of ''
                   @ rupee @ ''40,000''))"
    by (simp add: fmt_commas_45000 fmt_commas_40000)
  moreover from any [THEN conjunct1, THEN spec, of "''status''"]
  have "approve (approve Map.empty) ''status'' = Some (VStr ''APPROVED'')"
    by simp
  moreover from any [THEN conjunct2, THEN conjunct1, THEN spec, of "''rejection_reason''"]
  have "reject (approve Map.empty) (Some ''late'') ''rejection_reason'' = Some (VStr ''late'')"
    by simp
  ultimately show ?thesis by blast
qed

subsection \<open>The rule store\<close>

text \<open>
  Claim C4. When the store can be loaded, \<open>write_site_rules\<close> returns the rules it was
  given, unchanged, and a read of the same site right after the write returns those
  rules, for every site and every rules dict.
\<close>

theorem write_then_read:
  "load_memory w = Inr m \<Longrightarrow>
     snd (write_site_rules w site r) = Inr r
     \<and> read_site_rules (fst (write_site_rules w site r)) site = Inr (Some r)"
  by (simp add: write_site_rules_def read_site_rules_def load_memory_def save_memory_def
        json_load_def Let_def)

theorem write_then_read_witness:
  "snd (write_site_rules (demo_world [] 50000) ''Goa''
          \<lparr>approval_limit = Some 40000, banned_vendors = Some [''BadRock Cements'']\<rparr>)
     = Inr \<lparr>approval_limit = Some 40000, banned_vendors = Some [''BadRock Cements'']\<rparr>
   \<and> read_site_rules
        (fst (write_site_rules (demo_world [] 50000) ''Goa''
                \<lparr>approval_limit = Some 40000, banned_vendors = Some [''BadRock Cements'']\<rparr>))
        ''Goa''
     = Inr (Some \<lparr>approval_limit = Some 40000, banned_vendors = Some [''BadRock Cements'']\<rparr>)"
proof -
  have "load_memory (demo_world [] 50000) =
      Inr [''Pune'' \<mapsto> \<lparr>approval_limit = Some 50000, banned_vendors = Some []\<rparr>]"
    by (simp add: load_memory_def demo_world_def json_load_def)
  from write_then_read [OF this] show ?thesis .
qed

text \<open>
  Claim C6. A site that was never written has no entry in the store: when the store
  can be loaded and holds no entry for the site, then after any run of writes to
  other sites a read of the site returns \<open>None\<close>, the value of \<^verbatim>\<open>memory.get\<close> for a
  missing key, and not an error.
\<close>

theorem read_never_written:
  "load_memory w = Inr m \<Longrightarrow> m site = None \<Longrightarrow> site \<notin> fst ` set ws \<Longrightarrow>
     read_site_rules (write_all w ws) site = Inr None"
  using load_memory_write_all [of w m site ws] by (auto simp: read_site_rules_def)

theorem read_never_written_witness:
  "read_site_rules
     (write_all (demo_world [] 50000)
        [(''Mumbai'', \<lparr>approval_limit = Some 10, banned_vendors = None\<rparr>),
         (''Pune'', \<lparr>approval_limit = Some 20, banned_vendors = Some []\<rparr>)])
     ''Goa'' = Inr None"
proof -
  have "load_memory (demo_world [] 50000) =
      Inr [''Pune'' \<mapsto> \<lparr>approval_limit = Some 50000, banned_vendors = Some []\<rparr>]"
    by (simp add: load_memory_def demo_world_def json_load_def)
  from read_never_written [OF this, of "''Goa''"
      "[(''Mumbai'', \<lparr>approval_limit = Some 10, banned_vendors = None\<rparr>),
        (''Pune'', \<lparr>approval_limit = Some 20, banned_vendors = Some []\<rparr>)]"]
  show ?thesis by simp
qed

text \<open>
  Claim C9. Writing the rules of one site leaves the rules read for every other site
  as they were: for two distinct sites, the read of the second after a write to the
  first equals the read of the second before the write, also when the store cannot be
  loaded (both reads then raise the same error).
\<close>

theorem write_other_site:
  "s1 \<noteq> s2 \<Longrightarrow> read_site_rules (fst (write_site_rules w s1 r)) s2 = read_site_rules w s2"
  by (simp add: read_site_rules_def load_memory_write split: sum.splits)

theorem write_other_site_witness:
  "read_site_rules
     (fst (write_site_rules (demo_world [] 50000) ''Goa''
             \<lparr>approval_limit = Some 1, banned_vendors = None\<rparr>)) ''Pune''
     = Inr (Some \<lparr>approval_limit = Some 50000, banned_vendors = Some []\<rparr>)"
  using write_other_site [of "''Goa''" "''Pune''" "demo_world [] 50000"
      "\<lparr>approval_limit = Some 1, banned_vendors = None\<rparr>"]
  by (simp add: demo_read)

end
